theory Spec2Isabelle
  imports Main
begin

section \<open>C strings\<close>

text \<open>
  A \<^verbatim>\<open>const gchar*\<close> is modelled by the bytes stored at the address; the list stands for
  these bytes followed by a terminating NUL. The C string a pointer denotes is what
  \<^verbatim>\<open>%s\<close>, \<^verbatim>\<open>strcmp\<close> and \<^verbatim>\<open>g_strdup\<close> read: the bytes before the first NUL.
\<close>

definition NUL :: char where
  "NUL = CHR 0x00"

definition c_str :: "string \<Rightarrow> string" where
  "c_str p = takeWhile (\<lambda>c. c \<noteq> NUL) p"

text \<open>
  \<^verbatim>\<open>strcmp\<close> of the C library: the bytes are compared as unsigned char, up to and
  including the first NUL; the result is zero when no byte differs, and the difference
  of the first two bytes that differ otherwise.
\<close>

fun strcmp :: "string \<Rightarrow> string \<Rightarrow> int" where
  "strcmp [] [] = 0"
| "strcmp [] (b # bs) = 0 - of_char b"
| "strcmp (a # as) [] = of_char a"
| "strcmp (a # as) (b # bs) =
     (if a \<noteq> b then of_char a - of_char b
      else if a = NUL then 0
      else strcmp as bs)"

text \<open>
  \<^verbatim>\<open>g_strdup_printf\<close> of GLib, for format strings whose only conversion is \<^verbatim>\<open>%s\<close>
  (the one conversion this program uses): every \<^verbatim>\<open>%s\<close> is replaced by the C string of
  the next argument, every other byte is copied. A conversion without an argument is
  undefined in C; the program has none, and the model stops there.
\<close>

fun g_strdup_printf :: "string \<Rightarrow> string list \<Rightarrow> string" where
  "g_strdup_printf (c # d # fmt) args =
     (if c = CHR ''%'' \<and> d = CHR ''s'' then
        (case args of
           [] \<Rightarrow> []
         | a # rest \<Rightarrow> c_str a @ g_strdup_printf fmt rest)
      else c # g_strdup_printf (d # fmt) args)"
| "g_strdup_printf fmt args = fmt"

section \<open>The operating system: \<^verbatim>\<open>uname(2)\<close>\<close>

text \<open>
  \<^verbatim>\<open>struct utsname\<close> of \<^verbatim>\<open><sys/utsname.h>\<close>: six character arrays of
  \<^verbatim>\<open>_UTSNAME_LENGTH\<close> = 65 bytes each.
\<close>

record utsname =
  sysname :: string
  nodename :: string
  release :: string
  version :: string
  machine :: string
  domainname :: string

definition UTSNAME_LENGTH :: nat where
  "UTSNAME_LENGTH = 65"

text \<open>The value of \<^verbatim>\<open>struct utsname uname_data = {}\<close>: every byte is zero.\<close>

definition utsname_zero :: utsname where
  "utsname_zero =
     \<lparr>sysname = replicate UTSNAME_LENGTH NUL,
      nodename = replicate UTSNAME_LENGTH NUL,
      release = replicate UTSNAME_LENGTH NUL,
      version = replicate UTSNAME_LENGTH NUL,
      machine = replicate UTSNAME_LENGTH NUL,
      domainname = replicate UTSNAME_LENGTH NUL\<rparr>"

text \<open>
  The system call is a parameter of the model: given the buffer it is passed, it yields
  its return code (0, or -1 on failure) and the buffer as it leaves it.
\<close>

type_synonym uname_syscall = "utsname \<Rightarrow> int \<times> utsname"

section \<open>The host framework\<close>

text \<open>\<^verbatim>\<open>FlValue\<close>: the values of the standard codec that the model needs.\<close>

datatype FlValue =
    FlNull
  | FlBool bool
  | FlInt int
  | FlString string
  | FlList "FlValue list"
  | FlMap "(FlValue \<times> FlValue) list"

text \<open>\<^verbatim>\<open>fl_value_new_string\<close> copies the C string at its argument.\<close>

definition fl_value_new_string :: "string \<Rightarrow> FlValue" where
  "fl_value_new_string p = FlString (c_str p)"

text \<open>The three response envelopes of a method channel.\<close>

datatype FlMethodResponse =
    FlMethodSuccessResponse FlValue
  | FlMethodErrorResponse string string FlValue
  | FlMethodNotImplementedResponse

definition fl_method_success_response_new :: "FlValue \<Rightarrow> FlMethodResponse" where
  "fl_method_success_response_new result = FlMethodSuccessResponse result"

definition fl_method_not_implemented_response_new :: FlMethodResponse where
  "fl_method_not_implemented_response_new = FlMethodNotImplementedResponse"

text \<open>An incoming method call: the bytes at its name pointer, and its arguments.\<close>

record FlMethodCall =
  name :: string
  args :: FlValue

definition fl_method_call_get_name :: "FlMethodCall \<Rightarrow> string" where
  "fl_method_call_get_name method_call = name method_call"

datatype FlMethodCodec = FlStandardMethodCodec | FlJsonMethodCodec

text \<open>
  The functions of this program that are installed as method-call handlers; there is
  one. A handler is stored with its \<^verbatim>\<open>user_data\<close> pointer.
\<close>

datatype FlMethodChannelMethodCallHandler = Method_call_cb

record FlMethodChannel =
  channel_name :: string
  codec :: FlMethodCodec
  method_call_handler :: "(FlMethodChannelMethodCallHandler \<times> nat) option"

text \<open>
  The state of the host process that the plugin acts on: the binary messenger's table of
  channels by name, the responses sent back so far (one entry per call of
  \<^verbatim>\<open>fl_method_call_respond\<close>, in order), and the reference counts of the
  \<^verbatim>\<open>LogHoodPlugin\<close> objects allocated so far, by address.
\<close>

record host =
  channels :: "string \<rightharpoonup> FlMethodChannel"
  sent :: "(FlMethodCall \<times> FlMethodResponse) list"
  ref_counts :: "nat list"

text \<open>
  \<^verbatim>\<open>fl_method_call_respond(method_call, response, error)\<close> sends the response for the
  call. The program passes \<^verbatim>\<open>nullptr\<close> for \<^verbatim>\<open>error\<close> and ignores the result.
\<close>

definition fl_method_call_respond ::
    "FlMethodCall \<Rightarrow> FlMethodResponse \<Rightarrow> host \<Rightarrow> host" where
  "fl_method_call_respond method_call response h =
     h\<lparr>sent := sent h @ [(method_call, response)]\<rparr>"

section \<open>The plugin (\<^verbatim>\<open>linux/log_hood_plugin.cc\<close>)\<close>

definition get_platform_version :: "uname_syscall \<Rightarrow> FlMethodResponse" where
  "get_platform_version os =
     (let uname_data = utsname_zero;
          uname_data = snd (os uname_data);
          version = g_strdup_printf ''Linux %s'' [utsname.version uname_data];
          result = fl_value_new_string version
      in fl_method_success_response_new result)"

definition log_hood_plugin_handle_method_call ::
    "uname_syscall \<Rightarrow> nat \<Rightarrow> FlMethodCall \<Rightarrow> host \<Rightarrow> host" where
  "log_hood_plugin_handle_method_call os self method_call h =
     (let method = fl_method_call_get_name method_call;
          response =
            (if strcmp method ''getPlatformVersion'' = 0 then get_platform_version os
             else fl_method_not_implemented_response_new)
      in fl_method_call_respond method_call response h)"

text \<open>
  The callback installed on the channel. \<^verbatim>\<open>LOG_HOOD_PLUGIN(user_data)\<close> is a checked
  cast: the pointer is unchanged.
\<close>

definition method_call_cb ::
    "uname_syscall \<Rightarrow> string \<Rightarrow> FlMethodCall \<Rightarrow> nat \<Rightarrow> host \<Rightarrow> host" where
  "method_call_cb os channel method_call user_data h =
     (let plugin = user_data
      in log_hood_plugin_handle_method_call os plugin method_call h)"

subsection \<open>Registration\<close>

text \<open>
  \<^verbatim>\<open>g_object_new\<close> allocates an object with one reference; \<^verbatim>\<open>g_object_ref\<close> and
  \<^verbatim>\<open>g_object_unref\<close> add and drop a reference. An object is named by its address, its
  index in \<^const>\<open>ref_counts\<close>.
\<close>

definition g_object_new :: "host \<Rightarrow> nat \<times> host" where
  "g_object_new h = (length (ref_counts h), h\<lparr>ref_counts := ref_counts h @ [1]\<rparr>)"

definition g_object_ref :: "nat \<Rightarrow> host \<Rightarrow> host" where
  "g_object_ref obj h =
     (if obj < length (ref_counts h)
      then h\<lparr>ref_counts := (ref_counts h)[obj := ref_counts h ! obj + 1]\<rparr>
      else h)"

definition g_object_unref :: "nat \<Rightarrow> host \<Rightarrow> host" where
  "g_object_unref obj h =
     (if obj < length (ref_counts h)
      then h\<lparr>ref_counts := (ref_counts h)[obj := ref_counts h ! obj - 1]\<rparr>
      else h)"

definition fl_standard_method_codec_new :: FlMethodCodec where
  "fl_standard_method_codec_new = FlStandardMethodCodec"

text \<open>
  \<^verbatim>\<open>fl_method_channel_new(messenger, name, codec)\<close> creates a channel without a handler
  and makes it the receiver of the messages that arrive on the messenger under its name,
  in place of any earlier receiver for that name. The messenger is the one of the host,
  \<^verbatim>\<open>fl_plugin_registrar_get_messenger(registrar)\<close>. The channel is named by its key in
  \<^const>\<open>channels\<close>.
\<close>

definition fl_method_channel_new :: "string \<Rightarrow> FlMethodCodec \<Rightarrow> host \<Rightarrow> string \<times> host" where
  "fl_method_channel_new channel_id method_codec h =
     (let key = c_str channel_id;
          channel = \<lparr>channel_name = key, codec = method_codec, method_call_handler = None\<rparr>
      in (key, h\<lparr>channels := (channels h)(key \<mapsto> channel)\<rparr>))"

text \<open>
  \<^verbatim>\<open>fl_method_channel_set_method_call_handler(channel, handler, user_data, destroy_notify)\<close>
  stores the handler and its \<^verbatim>\<open>user_data\<close> in the channel. The destroy notification
  (\<^verbatim>\<open>g_object_unref\<close> here) runs when the channel is disposed of, which the model does
  not reach.
\<close>

definition fl_method_channel_set_method_call_handler ::
    "string \<Rightarrow> FlMethodChannelMethodCallHandler \<Rightarrow> nat \<Rightarrow> host \<Rightarrow> host" where
  "fl_method_channel_set_method_call_handler channel handler user_data h =
     (case channels h channel of
        None \<Rightarrow> h
      | Some c \<Rightarrow>
          h\<lparr>channels :=
              (channels h)(channel \<mapsto> c\<lparr>method_call_handler := Some (handler, user_data)\<rparr>)\<rparr>)"

definition log_hood_plugin_register_with_registrar :: "host \<Rightarrow> host" where
  "log_hood_plugin_register_with_registrar h =
     (let (plugin, h) = g_object_new h;
          method_codec = fl_standard_method_codec_new;
          (channel, h) = fl_method_channel_new ''log_hood'' method_codec h;
          h = g_object_ref plugin h;
          h = fl_method_channel_set_method_call_handler channel Method_call_cb plugin h
      in g_object_unref plugin h)"

text \<open>
  The framework's side of a channel: a method call that arrives under a channel name is
  handed to the handler stored in the channel of that name, with the stored
  \<^verbatim>\<open>user_data\<close>. What the framework does when there is no channel or no handler is
  outside the plugin; the model leaves the state as it is.
\<close>

fun call_handler ::
    "FlMethodChannelMethodCallHandler \<Rightarrow>
     uname_syscall \<Rightarrow> string \<Rightarrow> FlMethodCall \<Rightarrow> nat \<Rightarrow> host \<Rightarrow> host" where
  "call_handler Method_call_cb = method_call_cb"

definition fl_method_channel_receive ::
    "uname_syscall \<Rightarrow> string \<Rightarrow> FlMethodCall \<Rightarrow> host \<Rightarrow> host" where
  "fl_method_channel_receive os channel method_call h =
     (case channels h channel of
        None \<Rightarrow> h
      | Some c \<Rightarrow>
          (case method_call_handler c of
             None \<Rightarrow> h
           | Some (handler, user_data) \<Rightarrow>
               call_handler handler os channel method_call user_data h))"

section \<open>Concrete inputs\<close>

text \<open>
  A system call that fails: it returns -1 and leaves the buffer as it was passed.
\<close>

definition uname_fails :: uname_syscall where
  "uname_fails buf = (- 1, buf)"

text \<open>
  A system call that succeeds: it returns 0 and fills every array with a string, padded
  with NUL bytes to the length of the array.
\<close>

definition utsname_field :: "string \<Rightarrow> string" where
  "utsname_field s = s @ replicate (UTSNAME_LENGTH - length s) NUL"

definition uname_sample :: uname_syscall where
  "uname_sample buf =
     (0,
      \<lparr>sysname = utsname_field ''Linux'',
       nodename = utsname_field ''host'',
       release = utsname_field ''6.1.0'',
       version = utsname_field ''#1 SMP'',
       machine = utsname_field ''x86_64'',
       domainname = utsname_field ''(none)''\<rparr>)"

definition host_empty :: host where
  "host_empty = \<lparr>channels = Map.empty, sent = [], ref_counts = []\<rparr>"

definition call_getPlatformVersion :: FlMethodCall where
  "call_getPlatformVersion = \<lparr>name = ''getPlatformVersion'', args = FlNull\<rparr>"

section \<open>Properties of the C string functions\<close>

lemma c_str_Nil: "c_str [] = []"
  by (simp add: c_str_def)

lemma c_str_Cons: "c_str (a # as) = (if a = NUL then [] else a # c_str as)"
  by (simp add: c_str_def)

lemma of_char_eq_0_iff: "(of_char c :: int) = 0 \<longleftrightarrow> c = NUL"
proof -
  have "(of_char c :: int) = of_char NUL \<longleftrightarrow> c = NUL"
    by (simp only: of_char_eq_iff)
  then show ?thesis
    by (simp add: NUL_def)
qed

lemma strcmp_eq_0_iff: "strcmp p q = 0 \<longleftrightarrow> c_str p = c_str q"
proof (induction p q rule: strcmp.induct)
  case 1
  show ?case by simp
next
  case (2 b bs)
  show ?case
    using of_char_eq_0_iff [of b] by (auto simp add: c_str_Nil c_str_Cons)
next
  case (3 a as)
  show ?case
    using of_char_eq_0_iff [of a] by (auto simp add: c_str_Nil c_str_Cons)
next
  case (4 a as b bs)
  have diff: "(of_char a :: int) - of_char b = 0 \<longleftrightarrow> a = b"
    by simp
  show ?case
  proof (cases "a = b")
    case True
    with 4 show ?thesis by (simp add: c_str_Cons)
  next
    case False
    have "c_str (a # as) \<noteq> c_str (b # bs)"
    proof (cases "a = NUL")
      case True
      with False have "b \<noteq> NUL" by auto
      with True show ?thesis by (simp add: c_str_Cons)
    next
      case aN: False
      with False show ?thesis by (simp add: c_str_Cons)
    qed
    with False diff show ?thesis by simp
  qed
qed

lemma c_str_literal: "c_str ''getPlatformVersion'' = ''getPlatformVersion''"
  by (simp add: c_str_def NUL_def)

lemma printf_Linux: "g_strdup_printf ''Linux %s'' [v] = ''Linux '' @ c_str v"
  by simp

lemma c_str_idem: "c_str (c_str p) = c_str p"
  by (induction p) (simp_all add: c_str_Nil c_str_Cons)

lemma c_str_replicate_NUL: "c_str (replicate n NUL) = []"
  by (cases n) (simp_all add: c_str_Nil c_str_Cons)

lemma c_str_Linux: "c_str (''Linux '' @ c_str v) = ''Linux '' @ c_str v"
  by (simp add: c_str_Cons c_str_idem NUL_def)

section \<open>The response of the handler\<close>

lemma get_platform_version_eq:
  "get_platform_version os =
     FlMethodSuccessResponse
       (FlString (''Linux '' @ c_str (utsname.version (snd (os utsname_zero)))))"
  unfolding get_platform_version_def Let_def fl_value_new_string_def
    fl_method_success_response_new_def printf_Linux c_str_Linux
  by (rule refl)

lemma handle_method_call_eq:
  "log_hood_plugin_handle_method_call os self method_call h =
     h\<lparr>sent := sent h @
        [(method_call,
          if c_str (name method_call) = ''getPlatformVersion''
          then get_platform_version os
          else FlMethodNotImplementedResponse)]\<rparr>"
  unfolding log_hood_plugin_handle_method_call_def Let_def fl_method_call_respond_def
    fl_method_call_get_name_def fl_method_not_implemented_response_new_def
    strcmp_eq_0_iff c_str_literal
  by (rule refl)

lemma handle_method_call_sent:
  "sent (log_hood_plugin_handle_method_call os self method_call h) =
     sent h @
       [(method_call,
         if c_str (name method_call) = ''getPlatformVersion''
         then get_platform_version os
         else FlMethodNotImplementedResponse)]"
  by (simp add: handle_method_call_eq)

lemma c_str_append_NULs: "c_str (s @ replicate n NUL) = c_str s"
  by (induction s) (simp_all add: c_str_replicate_NUL c_str_Nil c_str_Cons)

lemma uname_fails_version: "c_str (utsname.version (snd (uname_fails utsname_zero))) = []"
  by (simp add: uname_fails_def utsname_zero_def c_str_replicate_NUL)

lemma uname_sample_version: "c_str (utsname.version (snd (uname_sample buf))) = ''#1 SMP''"
  by (simp add: uname_sample_def utsname_field_def c_str_append_NULs)
    (simp add: c_str_def NUL_def)

lemma call_getPlatformVersion_name:
  "c_str (fl_method_call_get_name call_getPlatformVersion) = ''getPlatformVersion''"
  by (simp add: call_getPlatformVersion_def fl_method_call_get_name_def c_str_literal)

section \<open>The method \<^verbatim>\<open>getPlatformVersion\<close>\<close>

text \<open>
  C1. A call whose name is \<^verbatim>\<open>getPlatformVersion\<close> is answered with a success response
  that holds one string: the operating system's name \<^verbatim>\<open>Linux\<close>, a space, and the
  version string that \<^verbatim>\<open>uname\<close> left in the \<^verbatim>\<open>version\<close> array.
\<close>

theorem getPlatformVersion_success_response:
  "c_str (fl_method_call_get_name method_call) = ''getPlatformVersion'' \<Longrightarrow>
   sent (log_hood_plugin_handle_method_call os self method_call h) =
     sent h @
       [(method_call,
         FlMethodSuccessResponse
           (FlString (''Linux'' @ '' '' @ c_str (utsname.version (snd (os utsname_zero))))))]"
  by (simp add: handle_method_call_sent get_platform_version_eq fl_method_call_get_name_def)

theorem getPlatformVersion_success_response_witness:
  "c_str (fl_method_call_get_name call_getPlatformVersion) = ''getPlatformVersion'' \<and>
   sent (log_hood_plugin_handle_method_call uname_sample 0 call_getPlatformVersion host_empty) =
     [(call_getPlatformVersion, FlMethodSuccessResponse (FlString ''Linux #1 SMP''))]"
  using getPlatformVersion_success_response
    [OF call_getPlatformVersion_name, of uname_sample 0 host_empty]
  by (simp add: call_getPlatformVersion_name uname_sample_version host_empty_def)

text \<open>
  C3. A call whose name is \<^verbatim>\<open>getPlatformVersion\<close> is answered with a success response
  that holds a string which is not empty, whatever \<^verbatim>\<open>uname\<close> returns and whatever it
  leaves in the buffer, an empty version string included.
\<close>

theorem getPlatformVersion_nonempty_string:
  "c_str (fl_method_call_get_name method_call) = ''getPlatformVersion'' \<Longrightarrow>
   \<exists>s. s \<noteq> [] \<and>
     sent (log_hood_plugin_handle_method_call os self method_call h) =
       sent h @ [(method_call, FlMethodSuccessResponse (FlString s))]"
  by (simp add: handle_method_call_sent get_platform_version_eq fl_method_call_get_name_def)

theorem getPlatformVersion_nonempty_string_witness:
  "c_str (fl_method_call_get_name call_getPlatformVersion) = ''getPlatformVersion'' \<and>
   c_str (utsname.version (snd (uname_fails utsname_zero))) = [] \<and>
   (\<exists>s. s \<noteq> [] \<and>
      sent (log_hood_plugin_handle_method_call uname_fails 0 call_getPlatformVersion host_empty) =
        [(call_getPlatformVersion, FlMethodSuccessResponse (FlString s))])"
  using getPlatformVersion_nonempty_string
    [OF call_getPlatformVersion_name, of uname_fails 0 host_empty]
  by (simp add: call_getPlatformVersion_name uname_fails_version host_empty_def)

text \<open>The response when the system call fails: the version string is empty.\<close>

lemma getPlatformVersion_uname_fails:
  "sent (log_hood_plugin_handle_method_call uname_fails 0 call_getPlatformVersion host_empty) =
     [(call_getPlatformVersion, FlMethodSuccessResponse (FlString ''Linux ''))]"
  by (simp add: handle_method_call_sent get_platform_version_eq uname_fails_version
      call_getPlatformVersion_name [unfolded fl_method_call_get_name_def] host_empty_def)

section \<open>Every other method\<close>

text \<open>
  C2. A call whose name is any string other than \<^verbatim>\<open>getPlatformVersion\<close> is answered
  with the not-implemented response, which is no success response. The name of a call is
  the C string at the pointer that \<^verbatim>\<open>fl_method_call_get_name\<close> returns.
\<close>

theorem other_method_not_implemented:
  "c_str (fl_method_call_get_name method_call) \<noteq> ''getPlatformVersion'' \<Longrightarrow>
   \<exists>r. sent (log_hood_plugin_handle_method_call os self method_call h) =
          sent h @ [(method_call, r)] \<and>
        r = FlMethodNotImplementedResponse \<and>
        (\<forall>v. r \<noteq> FlMethodSuccessResponse v)"
  by (simp add: handle_method_call_sent fl_method_call_get_name_def)

theorem other_method_not_implemented_witness:
  "c_str (fl_method_call_get_name \<lparr>name = ''getBatteryLevel'', args = FlNull\<rparr>) \<noteq>
     ''getPlatformVersion'' \<and>
   sent (log_hood_plugin_handle_method_call uname_sample 0
           \<lparr>name = ''getBatteryLevel'', args = FlNull\<rparr> host_empty) =
     [(\<lparr>name = ''getBatteryLevel'', args = FlNull\<rparr>, FlMethodNotImplementedResponse)]"
proof -
  have differs:
    "c_str (fl_method_call_get_name \<lparr>name = ''getBatteryLevel'', args = FlNull\<rparr>) \<noteq>
       ''getPlatformVersion''"
    by (simp add: fl_method_call_get_name_def c_str_def NUL_def)
  from other_method_not_implemented [OF differs, of uname_sample 0 host_empty] differs
  show ?thesis
    by (simp add: host_empty_def)
qed

text \<open>
  C7. The name is matched byte by byte: a call whose name has another length than
  \<^verbatim>\<open>getPlatformVersion\<close>, or another byte at some position, is answered with the
  not-implemented response. So are the names that differ in the case of one letter, or
  by a space in front or at the end.
\<close>

theorem method_name_match_exact:
  "length (c_str (fl_method_call_get_name method_call)) \<noteq> length ''getPlatformVersion'' \<or>
   (\<exists>i < length ''getPlatformVersion''.
      c_str (fl_method_call_get_name method_call) ! i \<noteq> ''getPlatformVersion'' ! i) \<Longrightarrow>
   sent (log_hood_plugin_handle_method_call os self method_call h) =
     sent h @ [(method_call, FlMethodNotImplementedResponse)]"
proof -
  assume "length (c_str (fl_method_call_get_name method_call)) \<noteq> length ''getPlatformVersion'' \<or>
    (\<exists>i < length ''getPlatformVersion''.
       c_str (fl_method_call_get_name method_call) ! i \<noteq> ''getPlatformVersion'' ! i)"
  then have "c_str (name method_call) \<noteq> ''getPlatformVersion''"
    unfolding fl_method_call_get_name_def by auto
  then show ?thesis
    by (simp add: handle_method_call_sent)
qed

theorem method_name_match_exact_witness:
  "sent (log_hood_plugin_handle_method_call uname_sample 0
           \<lparr>name = ''GetPlatformVersion'', args = FlNull\<rparr> host_empty) =
     [(\<lparr>name = ''GetPlatformVersion'', args = FlNull\<rparr>, FlMethodNotImplementedResponse)] \<and>
   sent (log_hood_plugin_handle_method_call uname_sample 0
           \<lparr>name = '' getPlatformVersion'', args = FlNull\<rparr> host_empty) =
     [(\<lparr>name = '' getPlatformVersion'', args = FlNull\<rparr>, FlMethodNotImplementedResponse)] \<and>
   sent (log_hood_plugin_handle_method_call uname_sample 0
           \<lparr>name = ''getPlatformVersion '', args = FlNull\<rparr> host_empty) =
     [(\<lparr>name = ''getPlatformVersion '', args = FlNull\<rparr>, FlMethodNotImplementedResponse)]"
proof -
  have letter_case:
    "\<exists>i < length ''getPlatformVersion''.
       c_str (fl_method_call_get_name \<lparr>name = ''GetPlatformVersion'', args = FlNull\<rparr>) ! i \<noteq>
       ''getPlatformVersion'' ! i"
    by (rule exI [of _ 0]) (simp add: fl_method_call_get_name_def c_str_def NUL_def)
  have leading:
    "length (c_str (fl_method_call_get_name \<lparr>name = '' getPlatformVersion'', args = FlNull\<rparr>)) \<noteq>
       length ''getPlatformVersion''"
    by (simp add: fl_method_call_get_name_def c_str_def NUL_def)
  have trailing:
    "length (c_str (fl_method_call_get_name \<lparr>name = ''getPlatformVersion '', args = FlNull\<rparr>)) \<noteq>
       length ''getPlatformVersion''"
    by (simp add: fl_method_call_get_name_def c_str_def NUL_def)
  from method_name_match_exact [OF disjI2, OF letter_case, of uname_sample 0 host_empty]
    method_name_match_exact [OF disjI1, OF leading, of uname_sample 0 host_empty]
    method_name_match_exact [OF disjI1, OF trailing, of uname_sample 0 host_empty]
  show ?thesis
    by (simp add: host_empty_def)
qed

section \<open>Error paths, responding once, determinism\<close>

text \<open>
  C4. The handler never builds an error response, and it sends the not-implemented
  response if and only if the name differs from \<^verbatim>\<open>getPlatformVersion\<close>. So a call of
  \<^verbatim>\<open>getPlatformVersion\<close> gets neither, also when \<^verbatim>\<open>uname\<close> fails.
\<close>

theorem not_implemented_iff_other_method:
  "\<exists>r. sent (log_hood_plugin_handle_method_call os self method_call h) =
          sent h @ [(method_call, r)] \<and>
        (r = FlMethodNotImplementedResponse) =
          (c_str (fl_method_call_get_name method_call) \<noteq> ''getPlatformVersion'') \<and>
        (\<forall>code message details. r \<noteq> FlMethodErrorResponse code message details)"
  by (simp add: handle_method_call_sent get_platform_version_eq fl_method_call_get_name_def)

theorem not_implemented_iff_other_method_witness:
  "\<exists>r. sent (log_hood_plugin_handle_method_call uname_fails 0 call_getPlatformVersion host_empty) =
          [(call_getPlatformVersion, r)] \<and>
        r \<noteq> FlMethodNotImplementedResponse \<and>
        (\<forall>code message details. r \<noteq> FlMethodErrorResponse code message details)"
  using not_implemented_iff_other_method [of uname_fails 0 call_getPlatformVersion host_empty]
  by (simp add: call_getPlatformVersion_name host_empty_def)

text \<open>
  C5. Every run of the handler ends, and it has called \<^verbatim>\<open>fl_method_call_respond\<close> once,
  for the call it was given: the state it returns is the state it was given with one more
  response sent, and nothing else changed.
\<close>

theorem handler_responds_exactly_once:
  "(\<exists>r. log_hood_plugin_handle_method_call os self method_call h =
          h\<lparr>sent := sent h @ [(method_call, r)]\<rparr>) \<and>
   length (sent (log_hood_plugin_handle_method_call os self method_call h)) =
     Suc (length (sent h))"
proof
  show "\<exists>r. log_hood_plugin_handle_method_call os self method_call h =
          h\<lparr>sent := sent h @ [(method_call, r)]\<rparr>"
    by (rule exI, rule handle_method_call_eq)
next
  show "length (sent (log_hood_plugin_handle_method_call os self method_call h)) =
      Suc (length (sent h))"
    by (simp add: handle_method_call_sent)
qed

text \<open>
  C6. Two runs of the handler on calls of the same name, with system calls that give the
  same result, send the same response, whatever the two states are in which they start:
  the response of a call does not depend on the calls before it.
\<close>

theorem response_deterministic:
  "fl_method_call_get_name call_a = fl_method_call_get_name call_b \<Longrightarrow>
   os_a utsname_zero = os_b utsname_zero \<Longrightarrow>
   \<exists>r. sent (log_hood_plugin_handle_method_call os_a self_a call_a h_a) = sent h_a @ [(call_a, r)] \<and>
       sent (log_hood_plugin_handle_method_call os_b self_b call_b h_b) = sent h_b @ [(call_b, r)]"
  by (simp add: handle_method_call_sent get_platform_version_eq fl_method_call_get_name_def)

theorem response_deterministic_witness:
  "\<exists>r. sent (log_hood_plugin_handle_method_call uname_sample 0 call_getPlatformVersion host_empty) =
          [(call_getPlatformVersion, r)] \<and>
       sent (log_hood_plugin_handle_method_call uname_sample 1 call_getPlatformVersion
              (log_hood_plugin_handle_method_call uname_fails 0
                 \<lparr>name = ''getBatteryLevel'', args = FlNull\<rparr> host_empty)) =
          [(\<lparr>name = ''getBatteryLevel'', args = FlNull\<rparr>, FlMethodNotImplementedResponse),
           (call_getPlatformVersion, r)]"
proof -
  have other:
    "c_str (name \<lparr>name = ''getBatteryLevel'', args = FlNull\<rparr>) \<noteq> ''getPlatformVersion''"
    by (simp add: c_str_def NUL_def)
  from response_deterministic
      [where call_a = call_getPlatformVersion and call_b = call_getPlatformVersion
         and os_a = uname_sample and os_b = uname_sample
         and self_a = 0 and self_b = 1 and h_a = host_empty
         and h_b = "log_hood_plugin_handle_method_call uname_fails 0
            \<lparr>name = ''getBatteryLevel'', args = FlNull\<rparr> host_empty",
       OF refl refl]
  show ?thesis
    unfolding handle_method_call_sent [of uname_fails] if_not_P [OF other]
    by (simp add: host_empty_def)
qed

text \<open>
  C8. Two calls of the same name get the same response, whatever their arguments are:
  the handler does not read them.
\<close>

theorem response_independent_of_args:
  "fl_method_call_get_name call_a = fl_method_call_get_name call_b \<Longrightarrow>
   \<exists>r. sent (log_hood_plugin_handle_method_call os self call_a h) = sent h @ [(call_a, r)] \<and>
       sent (log_hood_plugin_handle_method_call os self call_b h) = sent h @ [(call_b, r)]"
  by (simp add: handle_method_call_sent fl_method_call_get_name_def)

theorem response_independent_of_args_witness:
  "fl_method_call_get_name call_getPlatformVersion =
     fl_method_call_get_name \<lparr>name = ''getPlatformVersion'', args = FlList [FlInt 7, FlString ''x'']\<rparr> \<and>
   (\<exists>r. sent (log_hood_plugin_handle_method_call uname_sample 0 call_getPlatformVersion host_empty) =
          [(call_getPlatformVersion, r)] \<and>
        sent (log_hood_plugin_handle_method_call uname_sample 0
               \<lparr>name = ''getPlatformVersion'', args = FlList [FlInt 7, FlString ''x'']\<rparr> host_empty) =
          [(\<lparr>name = ''getPlatformVersion'', args = FlList [FlInt 7, FlString ''x'']\<rparr>, r)])"
proof -
  have same:
    "fl_method_call_get_name call_getPlatformVersion =
       fl_method_call_get_name
         \<lparr>name = ''getPlatformVersion'', args = FlList [FlInt 7, FlString ''x'']\<rparr>"
    by (simp add: fl_method_call_get_name_def call_getPlatformVersion_def)
  from response_independent_of_args
      [OF same, where os = uname_sample and self = 0 and h = host_empty] same
  show ?thesis
    by (simp add: host_empty_def)
qed

section \<open>Registration\<close>

lemma c_str_log_hood: "c_str ''log_hood'' = ''log_hood''"
  by (simp add: c_str_def NUL_def)

lemma register_with_registrar_eq:
  "log_hood_plugin_register_with_registrar h =
     h\<lparr>channels :=
         (channels h)(''log_hood'' \<mapsto>
            \<lparr>channel_name = ''log_hood'', codec = FlStandardMethodCodec,
             method_call_handler = Some (Method_call_cb, length (ref_counts h))\<rparr>),
       ref_counts := ref_counts h @ [1]\<rparr>"
  by (simp add: log_hood_plugin_register_with_registrar_def g_object_new_def
      fl_standard_method_codec_new_def fl_method_channel_new_def g_object_ref_def
      fl_method_channel_set_method_call_handler_def g_object_unref_def c_str_log_hood
      Let_def nth_append)

lemma receive_on_handled_channel:
  "channels h channel = Some c \<Longrightarrow> method_call_handler c = Some (Method_call_cb, plugin) \<Longrightarrow>
   fl_method_channel_receive os channel method_call h =
     log_hood_plugin_handle_method_call os plugin method_call h"
  by (simp add: fl_method_channel_receive_def method_call_cb_def)

text \<open>
  C9. Registration changes the messenger's table of channels at one name,
  \<^verbatim>\<open>log_hood\<close>: the channel there has the standard method codec and the handler
  \<^verbatim>\<open>method_call_cb\<close> with the new plugin object. After it, every call that arrives on
  that channel is handled by \<^verbatim>\<open>log_hood_plugin_handle_method_call\<close>.
\<close>

theorem register_attaches_handler:
  "channels (log_hood_plugin_register_with_registrar h) =
     (channels h)(''log_hood'' \<mapsto>
        \<lparr>channel_name = ''log_hood'', codec = FlStandardMethodCodec,
         method_call_handler = Some (Method_call_cb, length (ref_counts h))\<rparr>) \<and>
   (\<forall>os method_call.
      fl_method_channel_receive os ''log_hood'' method_call
        (log_hood_plugin_register_with_registrar h) =
      log_hood_plugin_handle_method_call os (length (ref_counts h)) method_call
        (log_hood_plugin_register_with_registrar h))"
proof (intro conjI allI)
  show "channels (log_hood_plugin_register_with_registrar h) =
     (channels h)(''log_hood'' \<mapsto>
        \<lparr>channel_name = ''log_hood'', codec = FlStandardMethodCodec,
         method_call_handler = Some (Method_call_cb, length (ref_counts h))\<rparr>)"
    by (simp add: register_with_registrar_eq)
next
  fix os method_call
  show "fl_method_channel_receive os ''log_hood'' method_call
        (log_hood_plugin_register_with_registrar h) =
      log_hood_plugin_handle_method_call os (length (ref_counts h)) method_call
        (log_hood_plugin_register_with_registrar h)"
    by (rule receive_on_handled_channel [where c =
          "\<lparr>channel_name = ''log_hood'', codec = FlStandardMethodCodec,
            method_call_handler = Some (Method_call_cb, length (ref_counts h))\<rparr>"])
      (simp_all add: register_with_registrar_eq)
qed

text \<open>
  Registration in a host without channels, then a call of \<^verbatim>\<open>getPlatformVersion\<close> on
  the channel: the plugin object is left with one reference, held by the channel, and the
  call is answered once.
\<close>

lemma register_then_call:
  "ref_counts (log_hood_plugin_register_with_registrar host_empty) = [1] \<and>
   sent (fl_method_channel_receive uname_sample ''log_hood'' call_getPlatformVersion
           (log_hood_plugin_register_with_registrar host_empty)) =
     [(call_getPlatformVersion, FlMethodSuccessResponse (FlString ''Linux #1 SMP''))]"
proof -
  have "fl_method_channel_receive uname_sample ''log_hood'' call_getPlatformVersion
           (log_hood_plugin_register_with_registrar host_empty) =
        log_hood_plugin_handle_method_call uname_sample 0 call_getPlatformVersion
           (log_hood_plugin_register_with_registrar host_empty)"
    by (rule receive_on_handled_channel [where c =
          "\<lparr>channel_name = ''log_hood'', codec = FlStandardMethodCodec,
            method_call_handler = Some (Method_call_cb, 0)\<rparr>"])
      (simp_all add: register_with_registrar_eq host_empty_def)
  then show ?thesis
    by (simp add: handle_method_call_sent get_platform_version_eq uname_sample_version
        call_getPlatformVersion_name [unfolded fl_method_call_get_name_def]
        register_with_registrar_eq host_empty_def)
qed

end
